theory Spec2Isabelle
  imports Complex_Main "HOL-Library.Word"
begin

section \<open>Platform primitives used by the sketch\<close>

text \<open>
  The sketch targets an AVR Arduino board (external interrupts on pins 2 and 3): \<open>int\<close> is
  16 bits wide, \<open>long\<close> and \<open>unsigned long\<close> are 32 bits wide. Values of type
  \<open>float\<close> are modelled as real numbers: rounding of the 32-bit floating-point format is
  not part of the model.
\<close>

type_synonym int16 = "16 word"
type_synonym ulong = "32 word"

text \<open>C division on \<open>long\<close> truncates towards zero.\<close>

definition c_div :: "int \<Rightarrow> int \<Rightarrow> int" where
  "c_div a b = (if (a < 0) = (b < 0) then \<bar>a\<bar> div \<bar>b\<bar> else - (\<bar>a\<bar> div \<bar>b\<bar>))"

text \<open>Wrap-around of a mathematical integer into a signed 32-bit \<open>long\<close>.\<close>

definition to_long :: "int \<Rightarrow> int" where
  "to_long v = (v + 2147483648) mod 4294967296 - 2147483648"

text \<open>Narrowing of a \<open>long\<close> into a signed 16-bit \<open>int\<close>.\<close>

definition to_int :: "int \<Rightarrow> int" where
  "to_int v = (v + 32768) mod 65536 - 32768"

text \<open>
  The Arduino core function
  \<^verbatim>\<open>long map(long x, long in_min, long in_max, long out_min, long out_max)
  { return (x - in_min) * (out_max - out_min) / (in_max - in_min) + out_min; }\<close>
  computed in 32-bit \<open>long\<close> arithmetic. It does not constrain its result to the output
  range.
\<close>

definition map_long :: "int \<Rightarrow> int \<Rightarrow> int \<Rightarrow> int \<Rightarrow> int \<Rightarrow> int" where
  "map_long x in_min in_max out_min out_max =
     to_long (to_long (c_div (to_long (to_long (x - in_min) * to_long (out_max - out_min)))
                             (to_long (in_max - in_min))) + out_min)"

section \<open>Logical values of the sketch\<close>

definition maxPhotoRaw :: int where "maxPhotoRaw = 75"
definition minPhotoRaw :: int where "minPhotoRaw = -1"
definition photodiodeEmptyNormalized :: real where "photodiodeEmptyNormalized = 0.83"
definition absorbanceScaling :: real where "absorbanceScaling = 0.96"
definition absorbanceOffset :: real where "absorbanceOffset = -0.01"
definition elevatorRiseTicks :: int where "elevatorRiseTicks = 800"
definition buttonHoldMillis :: ulong where "buttonHoldMillis = 800"

definition HANDSHAKE :: int where "HANDSHAKE = 0"
definition VOLTAGE_REQUEST :: int where "VOLTAGE_REQUEST = 1"
definition ON_REQUEST :: int where "ON_REQUEST = 2"
definition STREAM :: int where "STREAM = 3"
definition READ_DAQ_DELAY :: int where "READ_DAQ_DELAY = 4"

section \<open>Device state\<close>

datatype lcd_op = LcdClear | LcdSetCursor nat nat | LcdPrint string | LcdPrintFloat real nat

datatype serial_line = Report ulong real | Line string

record device =
  daqMode :: int
  daqDelay :: int
  daqDelayStr :: string
  timeOfLastDAQ :: ulong
  absorbanceBlank :: real
  elevatorUp :: int
  waitingForRelease :: bool
  ejectRequested :: bool
  pressStartTime :: ulong
  cbEject_lastInterruptTime :: ulong
  cbRecord_lastInterruptTime :: ulong
  recordAttached :: bool
  serial_in :: string
  serial_out :: "serial_line list"
  lcd :: "lcd_op list"
  motor_pins :: "int list list"

text \<open>The state after the global initialisers and \<open>setup()\<close> have run.\<close>

definition startup :: device where
  "startup = \<lparr> daqMode = ON_REQUEST, daqDelay = 100, daqDelayStr = [],
       timeOfLastDAQ = 0,
       absorbanceBlank = -0.104, elevatorUp = 1, waitingForRelease = False,
       ejectRequested = False, pressStartTime = 0, cbEject_lastInterruptTime = 0,
       cbRecord_lastInterruptTime = 0, recordAttached = True, serial_in = [],
       serial_out = [], lcd = [LcdSetCursor 0 0, LcdPrint ''Awaiting Input.''],
       motor_pins = [] \<rparr>"

section \<open>Photometric engine\<close>

text \<open>
  \<open>measureLight\<close>: the argument is the sample returned by \<open>ads.readADC_SingleEnded(0)\<close>
  (an \<open>int16_t\<close>); its conversion to \<open>float\<close> and back to \<open>int\<close> is exact.
\<close>

definition photodiodeMapped :: "int16 \<Rightarrow> int" where
  "photodiodeMapped raw = to_int (map_long (sint raw) minPhotoRaw maxPhotoRaw 0 maxPhotoRaw)"

definition measureLight :: "int16 \<Rightarrow> real" where
  "measureLight raw = real_of_int (photodiodeMapped raw) / real_of_int maxPhotoRaw"

definition getAbsorbance :: "device \<Rightarrow> real \<Rightarrow> real" where
  "getAbsorbance st measurement =
     (let measurement = (if measurement < 0.0001 then 0.0001 else measurement)
      in absorbanceScaling * (log 10 (photodiodeEmptyNormalized / measurement) - absorbanceBlank st)
           + absorbanceOffset)"

definition calibration :: "int16 \<Rightarrow> device \<Rightarrow> device" where
  "calibration raw st =
     (let st1 = st\<lparr>absorbanceBlank := 0.0\<rparr>;
          st2 = st1\<lparr>absorbanceBlank := getAbsorbance st1 (measureLight raw)\<rparr>
      in st2\<lparr>lcd := lcd st2 @ [LcdClear, LcdSetCursor 0 0, LcdPrint ''Calibration'',
                               LcdSetCursor 0 1, LcdPrint ''Successful.'']\<rparr>)"

definition sample :: "bool \<Rightarrow> int16 \<Rightarrow> device \<Rightarrow> real \<times> device" where
  "sample standalone raw st =
     (let measurement = measureLight raw;
          absorbance = getAbsorbance st measurement;
          st1 = st\<lparr>lcd := lcd st @ [LcdClear]\<rparr>;
          st2 = (if standalone
                 then st1\<lparr>lcd := lcd st1 @ [LcdSetCursor 3 0, LcdPrint ''Absorbance: '',
                                             LcdSetCursor 6 1, LcdPrintFloat absorbance 3]\<rparr>
                 else st1\<lparr>lcd := lcd st1 @ [LcdSetCursor 0 0, LcdPrint ''Sending Data...'']\<rparr>)
      in (absorbance, st2))"

text \<open>
  \<open>sendData\<close>: \<open>now\<close> is the value of \<open>millis()\<close> after sampling, \<open>writable\<close> the
  truth value of \<open>Serial.availableForWrite()\<close>.
\<close>

definition sendData :: "int16 \<Rightarrow> ulong \<Rightarrow> bool \<Rightarrow> device \<Rightarrow> ulong \<times> device" where
  "sendData raw now writable st =
     (let (absorbance, st1) = sample False raw st;
          time_ms = now;
          st2 = (if writable then st1\<lparr>serial_out := serial_out st1 @ [Report time_ms absorbance]\<rparr>
                 else st1)
      in (time_ms, st2))"

section \<open>Motor controller\<close>

definition steps :: "int list list" where
  "steps = [[1, 0, 0, 0], [1, 1, 0, 0], [0, 1, 0, 0], [0, 1, 1, 0],
            [0, 0, 1, 0], [0, 0, 1, 1], [0, 0, 0, 1], [1, 0, 0, 1]]"

text \<open>
  The \<open>for\<close> loop of \<open>stepMotor\<close>: the phase patterns written to the four output lines, one
  per step. \<open>stepIndex + direction + 8\<close> is never negative, so C's \<open>%\<close> is \<open>mod\<close> here.
\<close>

fun stepMotor_pins :: "nat \<Rightarrow> int \<Rightarrow> int \<Rightarrow> int list list" where
  "stepMotor_pins 0 direction stepIndex = []"
| "stepMotor_pins (Suc n) direction stepIndex =
     (let stepIndex1 = stepIndex + direction;
          stepIndex2 = (stepIndex1 + 8) mod 8
      in (steps ! nat stepIndex2) # stepMotor_pins n direction stepIndex2)"

definition stepMotor :: "int \<Rightarrow> device \<Rightarrow> device" where
  "stepMotor stepsToMove st =
     (let direction = (if stepsToMove > 0 then 1 else - 1);
          stepsToMove = \<bar>stepsToMove\<bar>
      in st\<lparr>motor_pins := motor_pins st @ stepMotor_pins (nat stepsToMove) direction 0\<rparr>)"

section \<open>Button interrupt handlers\<close>

text \<open>
  The argument \<open>now\<close> is the value of \<open>millis()\<close> when the handler runs; the counter does
  not advance inside a handler. Each handler's \<open>static\<close> local \<open>lastInterruptTime\<close>
  is a field of the device state. Subtraction and comparison of \<open>unsigned long\<close> values
  are those of 32-bit words.
\<close>

definition cbEject :: "ulong \<Rightarrow> device \<Rightarrow> device" where
  "cbEject now st =
     (let interruptTime = now;
          st1 = (if interruptTime - cbEject_lastInterruptTime st > 200
                 then st\<lparr>ejectRequested := True\<rparr> else st)
      in st1\<lparr>cbEject_lastInterruptTime := interruptTime\<rparr>)"

definition cbRecord :: "ulong \<Rightarrow> device \<Rightarrow> device" where
  "cbRecord now st =
     (let interruptTime = now;
          st1 = (if interruptTime - cbRecord_lastInterruptTime st > 200
                 then st\<lparr>recordAttached := False, pressStartTime := now,
                         waitingForRelease := True\<rparr>
                 else st)
      in st1\<lparr>cbRecord_lastInterruptTime := interruptTime\<rparr>)"

text \<open>
  A falling edge on a button line at a given time. The record handler only runs while its
  interrupt is attached.
\<close>

datatype irq = EjectEdge ulong | RecordEdge ulong

fun fire :: "irq \<Rightarrow> device \<Rightarrow> device" where
  "fire (EjectEdge t) st = cbEject t st"
| "fire (RecordEdge t) st = (if recordAttached st then cbRecord t st else st)"

definition interrupts :: "irq list \<Rightarrow> device \<Rightarrow> device" where
  "interrupts es st = fold fire es st"

section \<open>Serial protocol\<close>

text \<open>
  \<open>Stream::readStringUntil(terminator)\<close>: the characters read before the terminator (or
  before the input runs dry and the read times out), and the input left; the terminator
  is consumed.
\<close>

definition readStringUntil :: "char \<Rightarrow> string \<Rightarrow> string \<times> string" where
  "readStringUntil terminator input =
     (takeWhile (\<lambda>c. c \<noteq> terminator) input, drop 1 (dropWhile (\<lambda>c. c \<noteq> terminator) input))"

text \<open>
  \<open>String::toInt()\<close> is \<open>atol\<close> on the character buffer: leading white space is
  skipped, an optional sign is read, then decimal digits up to the first other character.
  The value is accumulated in a 32-bit \<open>long\<close>.
\<close>

definition isspace :: "char \<Rightarrow> bool" where
  "isspace c = ((of_char c :: int) = 32 \<or> (9 \<le> (of_char c :: int) \<and> (of_char c :: int) \<le> 13))"

definition isdigit :: "char \<Rightarrow> bool" where
  "isdigit c = (48 \<le> (of_char c :: int) \<and> (of_char c :: int) \<le> 57)"

fun atol_digits :: "int \<Rightarrow> string \<Rightarrow> int" where
  "atol_digits acc [] = acc"
| "atol_digits acc (c # cs) =
     (if isdigit c then atol_digits (acc * 10 + (of_char c - 48)) cs else acc)"

definition atol :: "string \<Rightarrow> int" where
  "atol s =
     (case dropWhile isspace s of
        [] \<Rightarrow> 0
      | c # cs \<Rightarrow>
          if c = CHR ''-'' then - atol_digits 0 cs
          else if c = CHR ''+'' then atol_digits 0 cs
          else atol_digits 0 (c # cs))"

definition toInt :: "string \<Rightarrow> int" where
  "toInt s = to_long (atol s)"

text \<open>
  The \<open>switch\<close> on the command byte. \<open>raw\<close> is the sample the converter would return,
  \<open>now\<close> the value of \<open>millis()\<close>, \<open>writable\<close> the truth value of
  \<open>Serial.availableForWrite()\<close>. There is no \<open>default\<close> branch.
\<close>

definition handle_command :: "int \<Rightarrow> int16 \<Rightarrow> ulong \<Rightarrow> bool \<Rightarrow> device \<Rightarrow> device" where
  "handle_command inByte raw now writable st =
     (if inByte = VOLTAGE_REQUEST then
        (let (t, st1) = sendData raw now writable st in st1\<lparr>timeOfLastDAQ := t\<rparr>)
      else if inByte = ON_REQUEST then st\<lparr>daqMode := ON_REQUEST\<rparr>
      else if inByte = STREAM then st\<lparr>daqMode := STREAM\<rparr>
      else if inByte = READ_DAQ_DELAY then
        (let (str, rest) = readStringUntil CHR ''x'' (serial_in st);
             st1 = st\<lparr>serial_in := rest, daqDelayStr := str\<rparr>
         in st1\<lparr>daqDelay := to_int (toInt (daqDelayStr st1))\<rparr>)
      else if inByte = HANDSHAKE then
        (if writable then st\<lparr>serial_out := serial_out st @ [Line ''Message received.'']\<rparr>
         else st)
      else st)"

section \<open>Control loop\<close>

text \<open>The four blocks of \<open>loop()\<close>, in source order.\<close>

definition loop_stream :: "int16 \<Rightarrow> ulong \<Rightarrow> ulong \<Rightarrow> bool \<Rightarrow> device \<Rightarrow> device" where
  "loop_stream raw now now_sent writable st =
     (if daqMode st = STREAM then
        (if now - timeOfLastDAQ st \<ge> word_of_int (daqDelay st) then
           (let (t, st1) = sendData raw now_sent writable st in st1\<lparr>timeOfLastDAQ := t\<rparr>)
         else st)
      else st)"

definition loop_serial :: "int16 \<Rightarrow> ulong \<Rightarrow> bool \<Rightarrow> device \<Rightarrow> device" where
  "loop_serial raw now writable st =
     (case serial_in st of
        [] \<Rightarrow> st
      | c # rest \<Rightarrow> handle_command (of_char c) raw now writable (st\<lparr>serial_in := rest\<rparr>))"

definition loop_button :: "bool \<Rightarrow> int16 \<Rightarrow> ulong \<Rightarrow> device \<Rightarrow> device" where
  "loop_button pinHigh raw now st =
     (if waitingForRelease st \<and> pinHigh then
        (let pressDuration = now - pressStartTime st;
             st1 = (if pressDuration \<ge> buttonHoldMillis then calibration raw st
                    else snd (sample True raw st))
         in st1\<lparr>waitingForRelease := False, recordAttached := True\<rparr>)
      else st)"

text \<open>C's \<open>not\<close> on an \<open>int\<close>.\<close>

definition c_not :: "int \<Rightarrow> int" where
  "c_not v = (if v = 0 then 1 else 0)"

definition lcd_message :: "string \<Rightarrow> device \<Rightarrow> device" where
  "lcd_message msg st = st\<lparr>lcd := lcd st @ [LcdClear, LcdSetCursor 0 0, LcdPrint msg]\<rparr>"

text \<open>
  The eject block. The motor action blocks the loop, but the button interrupts stay
  enabled: \<open>during\<close> are the edges that arrive between the test of \<open>ejectRequested\<close> and
  the toggle of \<open>elevatorUp\<close> (the whole motor action), \<open>after\<close> those that arrive
  between the toggle and the clearing of \<open>ejectRequested\<close>. The handlers and the motor
  action write disjoint fields, so the edges of \<open>during\<close> are applied after the steps.
\<close>

definition loop_eject :: "irq list \<Rightarrow> irq list \<Rightarrow> device \<Rightarrow> device" where
  "loop_eject during after st =
     (if ejectRequested st then
        (let st1 = (if elevatorUp st \<noteq> 0
                    then lcd_message ''Ejecting...'' (stepMotor elevatorRiseTicks st)
                    else lcd_message ''Sample inserted.'' (stepMotor (- elevatorRiseTicks) st));
             st2 = interrupts during st1;
             st3 = st2\<lparr>elevatorUp := c_not (elevatorUp st2)\<rparr>;
             st4 = interrupts after st3
         in st4\<lparr>ejectRequested := False\<rparr>)
      else st)"

text \<open>
  One iteration of \<open>loop()\<close>. The environment of an iteration gives the converter sample,
  the values of \<open>millis()\<close> read by each block, the state of the serial output and of the
  record button line, and the button edges that arrive before each block and inside the
  eject block. While the record source awaits release its interrupt is detached, and the
  eject handler writes only \<open>ejectRequested\<close> and its own time stamp, so the first three
  blocks are not disturbed by an edge that arrives inside them.
\<close>

record loop_env =
  adc :: int16
  now_stream :: ulong
  now_sent :: ulong
  now_serial :: ulong
  now_button :: ulong
  writable :: bool
  pin_high :: bool
  edges_stream :: "irq list"
  edges_serial :: "irq list"
  edges_button :: "irq list"
  edges_eject :: "irq list"
  edges_during :: "irq list"
  edges_after :: "irq list"

definition before_eject :: "loop_env \<Rightarrow> device \<Rightarrow> device" where
  "before_eject env st =
     (let st1 = loop_stream (adc env) (now_stream env) (now_sent env) (writable env)
                  (interrupts (edges_stream env) st);
          st2 = loop_serial (adc env) (now_serial env) (writable env)
                  (interrupts (edges_serial env) st1);
          st3 = loop_button (pin_high env) (adc env) (now_button env)
                  (interrupts (edges_button env) st2)
      in interrupts (edges_eject env) st3)"

definition loop :: "loop_env \<Rightarrow> device \<Rightarrow> device" where
  "loop env st = loop_eject (edges_during env) (edges_after env) (before_eject env st)"

fun loops :: "loop_env list \<Rightarrow> device \<Rightarrow> device" where
  "loops [] st = st"
| "loops (env # envs) st = loops envs (loop env st)"

section \<open>Notions used to state the properties\<close>

text \<open>Clamping of a value into an interval.\<close>

definition clamp :: "int \<Rightarrow> int \<Rightarrow> int \<Rightarrow> int" where
  "clamp x lo hi = (if x < lo then lo else if hi < x then hi else x)"

text \<open>
  A run of edges in which every edge comes at most 200 ms after the one before it; the
  first argument is the time of the edge that precedes the run.
\<close>

fun within_window :: "ulong \<Rightarrow> ulong list \<Rightarrow> bool" where
  "within_window t [] = True"
| "within_window t (u # us) = (u - t \<le> 200 \<and> within_window u us)"

text \<open>
  The number of iterations, in a run of the loop, in which the eject action is carried out.
\<close>

fun completed_ejects :: "loop_env list \<Rightarrow> device \<Rightarrow> nat" where
  "completed_ejects [] st = 0"
| "completed_ejects (env # envs) st =
     (if ejectRequested (before_eject env st) then 1 else 0)
       + completed_ejects envs (loop env st)"

text \<open>
  The times of the eject edges in a list of edges, and the times of the eject edges that
  reach the handler during a run of the loop, in order. The edges an iteration carries for
  the inside of its eject block only occur when that block runs.
\<close>

fun eject_times :: "irq list \<Rightarrow> ulong list" where
  "eject_times [] = []"
| "eject_times (EjectEdge t # es) = t # eject_times es"
| "eject_times (RecordEdge t # es) = eject_times es"

fun eject_edge_times :: "loop_env list \<Rightarrow> device \<Rightarrow> ulong list" where
  "eject_edge_times [] st = []"
| "eject_edge_times (env # envs) st =
     eject_times (edges_stream env @ edges_serial env @ edges_button env @ edges_eject env)
       @ (if ejectRequested (before_eject env st)
          then eject_times (edges_during env @ edges_after env) else [])
       @ eject_edge_times envs (loop env st)"

text \<open>
  An iteration of the loop in which no serial byte and no button release is pending, with
  the given edges before and inside the eject block.
\<close>

definition edges_only :: "irq list \<Rightarrow> irq list \<Rightarrow> loop_env" where
  "edges_only before during =
     \<lparr> adc = 0, now_stream = 0, now_sent = 0, now_serial = 0, now_button = 0,
       writable = True, pin_high = False, edges_stream = [], edges_serial = [],
       edges_button = [], edges_eject = before, edges_during = during, edges_after = [] \<rparr>"

section \<open>Properties of the photometric engine\<close>

lemma to_long_id: "- 2147483648 \<le> v \<Longrightarrow> v < 2147483648 \<Longrightarrow> to_long v = v"
  by (simp add: to_long_def)

lemma to_int_id: "- 32768 \<le> v \<Longrightarrow> v < 32768 \<Longrightarrow> to_int v = v"
  by (simp add: to_int_def)

lemma sint16_bounds: "- 32768 \<le> sint (raw :: int16) \<and> sint raw < 32768"
  using sint_ge [of raw] sint_lt [of raw] by simp

lemma c_div_76_bounds:
  assumes "- 32768 \<le> k" "k < 32768"
  shows "- 32768 \<le> c_div ((k + 1) * 75) 76 \<and> c_div ((k + 1) * 75) 76 < 32768"
  using assms unfolding c_div_def by (auto; presburger)

text \<open>For every sample of the converter the 32-bit and 16-bit arithmetic is exact.\<close>

lemma photodiodeMapped_eq: "photodiodeMapped raw = c_div ((sint raw + 1) * 75) 76"
proof -
  define k where "k = sint raw"
  define q where "q = c_div ((k + 1) * 75) 76"
  have b: "- 32768 \<le> k" "k < 32768" using sint16_bounds [of raw] by (simp_all add: k_def)
  have qb: "- 32768 \<le> q" "q < 32768"
    using c_div_76_bounds [OF b] by (simp_all add: q_def)
  have e1: "to_long (k - - 1) = k + 1" using b by (simp add: to_long_id)
  have e2: "to_long (75 - 0) = 75" by (simp add: to_long_def)
  have e3: "to_long (75 - - 1) = 76" by (simp add: to_long_def)
  have e4: "to_long ((k + 1) * 75) = (k + 1) * 75" using b by (intro to_long_id) simp_all
  have e5: "to_long q = q" using qb by (intro to_long_id) simp_all
  have e6: "to_long (q + 0) = q" using e5 by simp
  have e7: "to_int q = q" using qb by (rule to_int_id)
  have "photodiodeMapped raw =
      to_int (to_long (to_long (c_div (to_long (to_long (k - - 1) * to_long (75 - 0)))
                                      (to_long (75 - - 1))) + 0))"
    by (simp only: photodiodeMapped_def map_long_def minPhotoRaw_def maxPhotoRaw_def k_def)
  also have "\<dots> = q"
    by (simp only: e1 e2 e3 e4 q_def [symmetric] e5 e6 e7)
  finally show ?thesis by (simp only: q_def k_def)
qed

lemma mapped_in_range:
  assumes "- 1 \<le> k" "k \<le> 75"
  shows "c_div ((k + 1) * 75) 76 = clamp k 0 75"
  using assms unfolding c_div_def clamp_def by (auto; presburger)

lemma mapped_below:
  assumes "k < - 1"
  shows "c_div ((k + 1) * 75) 76 = - ((- (k + 1) * 75) div 76)"
    and "c_div ((k + 1) * 75) 76 \<le> 0"
    and "c_div ((k + 1) * 75) 76 = 0 \<longleftrightarrow> k = - 2"
  using assms unfolding c_div_def by (auto; presburger)+

lemma clamp_eps: "(if m < e then e else m) = max m (e::real)"
  by (simp add: max_def)

lemma getAbsorbance_max: "getAbsorbance st m =
    absorbanceScaling * (log 10 (photodiodeEmptyNormalized / max m 0.0001) - absorbanceBlank st)
      + absorbanceOffset"
  unfolding getAbsorbance_def Let_def clamp_eps ..

lemma absorbanceBlank_calibration: "absorbanceBlank (calibration raw st)
     = absorbanceScaling * log 10 (photodiodeEmptyNormalized / max (measureLight raw) 0.0001)
         + absorbanceOffset"
  by (simp add: calibration_def Let_def getAbsorbance_max)

lemma getAbsorbance_after_calibration:
  "getAbsorbance (calibration raw st) (measureLight raw)
     = (1 - absorbanceScaling) * absorbanceBlank (calibration raw st)"
  unfolding getAbsorbance_max [of "calibration raw st"] absorbanceBlank_calibration
  by (simp add: algebra_simps)

lemma log_8300: "3 < log 10 (8300::real)"
  using less_log_of_power [of 10 3 8300] by simp

text \<open>
  C1. For every reading \<open>m\<close>, \<open>getAbsorbance\<close> returns
  \<open>scaling * (log10 (referenceNormalized / m') - blank) + offset\<close> with \<open>m' = max m 1e-4\<close> and
  \<open>blank\<close> the stored calibration blank; the argument of the logarithm is positive for
  every reading, so near-zero (and negative) readings raise no error.
\<close>

theorem getAbsorbance_formula:
  "getAbsorbance st m =
     absorbanceScaling * (log 10 (photodiodeEmptyNormalized / max m 0.0001) - absorbanceBlank st)
       + absorbanceOffset
   \<and> 0 < photodiodeEmptyNormalized / max m 0.0001"
proof
  show "getAbsorbance st m =
    absorbanceScaling * (log 10 (photodiodeEmptyNormalized / max m 0.0001) - absorbanceBlank st)
      + absorbanceOffset"
    by (rule getAbsorbance_max)
  have "0 < max m 0.0001" by (simp add: max_def)
  then show "0 < photodiodeEmptyNormalized / max m 0.0001"
    by (simp add: photodiodeEmptyNormalized_def)
qed

text \<open>
  C2. For every raw sample \<open>r\<close> with \<open>minPhotoRaw \<le> r \<le> maxPhotoRaw\<close> (that is
  \<open>-1 \<le> r \<le> 75\<close>), the normalized reading of \<open>measureLight\<close> is
  \<open>clamp r 0 maxPhotoRaw / maxPhotoRaw\<close> and lies in \<open>[0, 1]\<close>.
\<close>

theorem measureLight_in_range:
  assumes "minPhotoRaw \<le> sint raw" and "sint raw \<le> maxPhotoRaw"
  shows "measureLight raw = real_of_int (clamp (sint raw) 0 maxPhotoRaw) / real_of_int maxPhotoRaw
     \<and> 0 \<le> measureLight raw \<and> measureLight raw \<le> 1"
proof -
  from assms have "- 1 \<le> sint raw" "sint raw \<le> 75"
    by (simp_all add: minPhotoRaw_def maxPhotoRaw_def)
  then have m: "photodiodeMapped raw = clamp (sint raw) 0 75"
    by (simp only: photodiodeMapped_eq mapped_in_range)
  have "0 \<le> clamp (sint raw) 0 75" "clamp (sint raw) 0 75 \<le> 75"
    by (simp_all add: clamp_def)
  then show ?thesis
    by (simp add: measureLight_def m maxPhotoRaw_def)
qed

theorem measureLight_in_range_witness:
  "minPhotoRaw \<le> sint (37 :: int16) \<and> sint (37 :: int16) \<le> maxPhotoRaw
   \<and> measureLight 37 = 37 / 75 \<and> 0 \<le> measureLight 37 \<and> measureLight 37 \<le> 1"
  using measureLight_in_range [of 37]
  by (simp add: minPhotoRaw_def maxPhotoRaw_def clamp_def)

text \<open>
  C3, as stated, fails: calibrating on a dark sample (raw value 0) and computing the
  absorbance of the same reading gives a value more than 0.1 above the offset constant.
\<close>

theorem calibration_offset_counterexample:
  "0.1 < getAbsorbance (calibration 0 startup) (measureLight 0) - absorbanceOffset"
proof -
  have m: "measureLight 0 = 0"
    by (simp add: measureLight_def photodiodeMapped_eq c_div_def)
  have "getAbsorbance (calibration 0 startup) (measureLight 0)
          = 0.04 * (0.96 * log 10 8300 - 0.01)"
    unfolding getAbsorbance_after_calibration absorbanceBlank_calibration
    by (simp add: m absorbanceScaling_def absorbanceOffset_def photodiodeEmptyNormalized_def)
  then show ?thesis using log_8300 by (simp add: absorbanceOffset_def)
qed

text \<open>
  C3, amended. For every device state and raw sample, \<open>calibration\<close> stores as the new blank
  the absorbance of the reading computed with a zero blank, whatever the prior blank was,
  and the absorbance of the same reading computed right afterwards is
  \<open>(1 - scaling)\<close> times that new blank.
\<close>

theorem calibration_then_absorbance:
  "getAbsorbance (calibration raw st) (measureLight raw)
     = (1 - absorbanceScaling) * absorbanceBlank (calibration raw st)
   \<and> absorbanceBlank (calibration raw st)
     = absorbanceScaling * log 10 (photodiodeEmptyNormalized / max (measureLight raw) 0.0001)
         + absorbanceOffset"
  using getAbsorbance_after_calibration [of raw st] absorbanceBlank_calibration [of raw st]
  by (rule conjI)

text \<open>
  C6, as stated, fails: the raw sample \<open>-3\<close> is below the configured minimum, yet its mapped
  value is \<open>-1\<close> and its normalized reading is \<open>-1/75\<close>, not 0.
\<close>

theorem measureLight_below_minimum_counterexample:
  "sint (- 3 :: int16) < minPhotoRaw \<and> photodiodeMapped (- 3) = - 1
   \<and> measureLight (- 3) = - 1 / 75 \<and> measureLight (- 3) \<noteq> 0"
  by (simp add: measureLight_def photodiodeMapped_eq c_div_def minPhotoRaw_def maxPhotoRaw_def)

text \<open>
  C6, amended. For every raw sample \<open>r\<close> strictly below the configured minimum, the mapped
  value is \<open>(r + 1) * 75 / 76\<close> rounded towards zero, which is never positive, and the
  normalized reading is never positive; it is 0 exactly when \<open>r = -2\<close>.
\<close>

theorem measureLight_below_minimum:
  assumes "sint raw < minPhotoRaw"
  shows "photodiodeMapped raw = - ((- (sint raw + 1) * 75) div 76)
     \<and> photodiodeMapped raw \<le> 0 \<and> measureLight raw \<le> 0
     \<and> (measureLight raw = 0 \<longleftrightarrow> sint raw = - 2)"
proof -
  from assms have a: "sint raw < - 1" by (simp add: minPhotoRaw_def)
  note m = mapped_below [OF a]
  show ?thesis
    using m by (simp add: measureLight_def photodiodeMapped_eq maxPhotoRaw_def)
qed

theorem measureLight_below_minimum_witness:
  "sint (- 10 :: int16) < minPhotoRaw \<and> photodiodeMapped (- 10) = - 8
   \<and> photodiodeMapped (- 10) \<le> 0 \<and> measureLight (- 10) \<le> 0
   \<and> (measureLight (- 10) = 0 \<longleftrightarrow> sint (- 10 :: int16) = - 2)"
  using measureLight_below_minimum [of "- 10"]
  by (simp add: minPhotoRaw_def)

text \<open>
  C8. For every pair of readings \<open>0 < m1 < m2\<close> and every stored blank, the absorbance of
  \<open>m1\<close> is at least the absorbance of \<open>m2\<close>.
\<close>

theorem getAbsorbance_antimono:
  assumes "0 < m1" and "m1 < m2"
  shows "getAbsorbance st m2 \<le> getAbsorbance st m1"
proof -
  define c1 where "c1 = max m1 0.0001"
  define c2 where "c2 = max m2 0.0001"
  have p: "0 < c1" "c1 \<le> c2" using assms by (auto simp: c1_def c2_def)
  then have "photodiodeEmptyNormalized / c2 \<le> photodiodeEmptyNormalized / c1"
    by (simp add: photodiodeEmptyNormalized_def frac_le)
  moreover have "0 < photodiodeEmptyNormalized / c2"
    using p by (simp add: photodiodeEmptyNormalized_def)
  ultimately have "log 10 (photodiodeEmptyNormalized / c2)
      \<le> log 10 (photodiodeEmptyNormalized / c1)"
    by simp
  then show ?thesis
    unfolding getAbsorbance_max c1_def [symmetric] c2_def [symmetric]
    by (simp add: absorbanceScaling_def)
qed

theorem getAbsorbance_antimono_witness:
  "(0::real) < 1 / 2 \<and> (1 / 2 :: real) < 1
   \<and> getAbsorbance startup 1 \<le> getAbsorbance startup (1 / 2)"
  using getAbsorbance_antimono [of "1 / 2" 1 startup] by simp

section \<open>Properties of the serial protocol\<close>

lemma atol_digits_nonneg: "0 \<le> acc \<Longrightarrow> 0 \<le> atol_digits acc s"
  by (induction s arbitrary: acc) (auto simp: isdigit_def)

lemma digit_not_space: "isdigit c \<Longrightarrow> \<not> isspace c"
  by (auto simp: isdigit_def isspace_def)

lemma digit_not_sign: "isdigit c \<Longrightarrow> c \<noteq> CHR ''-'' \<and> c \<noteq> CHR ''+'' \<and> c \<noteq> CHR ''x''"
  by (auto simp: isdigit_def)

lemma atol_digits_only: "list_all isdigit s \<Longrightarrow> atol s = atol_digits 0 s"
  by (cases s) (auto simp: atol_def digit_not_space digit_not_sign)

lemma readStringUntil_payload:
  "CHR ''x'' \<notin> set p \<Longrightarrow> readStringUntil CHR ''x'' (p @ CHR ''x'' # rest) = (p, rest)"
  by (induction p) (auto simp: readStringUntil_def)

lemma daqDelay_command:
  "daqDelay (handle_command READ_DAQ_DELAY raw now w st)
     = to_int (toInt (fst (readStringUntil CHR ''x'' (serial_in st))))"
  by (simp add: handle_command_def HANDSHAKE_def VOLTAGE_REQUEST_def
      ON_REQUEST_def STREAM_def READ_DAQ_DELAY_def split: prod.splits)

lemma handle_command_unknown:
  "inByte \<notin> {0, 1, 2, 3, 4} \<Longrightarrow> handle_command inByte raw now w st = st"
  by (simp add: handle_command_def HANDSHAKE_def VOLTAGE_REQUEST_def
      ON_REQUEST_def STREAM_def READ_DAQ_DELAY_def)

text \<open>
  C7. For every command byte that is not one of the five codes 0 to 4, the switch leaves
  the whole device state as it is: \<open>daqMode\<close>, \<open>daqDelay\<close> and the calibration blank are
  unchanged and nothing is written to the serial output. In the loop, the only effect of
  such a byte is that it is consumed from the serial input.
\<close>

theorem unknown_command_ignored:
  "(inByte \<notin> {0, 1, 2, 3, 4} \<longrightarrow> handle_command inByte raw now w st = st)
   \<and> (serial_in st = c # rest \<and> (of_char c :: int) \<notin> {0, 1, 2, 3, 4} \<longrightarrow>
        loop_serial raw now w st = st\<lparr>serial_in := rest\<rparr>
        \<and> daqMode (loop_serial raw now w st) = daqMode st
        \<and> daqDelay (loop_serial raw now w st) = daqDelay st
        \<and> absorbanceBlank (loop_serial raw now w st) = absorbanceBlank st
        \<and> serial_out (loop_serial raw now w st) = serial_out st)"
  by (simp add: handle_command_unknown loop_serial_def)

theorem unknown_command_ignored_witness:
  "(99::int) \<notin> {0, 1, 2, 3, 4}
   \<and> handle_command 99 0 0 True (startup\<lparr>serial_in := ''c''\<rparr>) = startup\<lparr>serial_in := ''c''\<rparr>
   \<and> (of_char CHR ''c'' :: int) = 99
   \<and> loop_serial 0 0 True (startup\<lparr>serial_in := ''c''\<rparr>) = startup\<lparr>serial_in := []\<rparr>"
  using unknown_command_ignored [of 99 0 0 True "startup\<lparr>serial_in := ''c''\<rparr>" "CHR ''c''" "[]"]
  by simp

lemma minus_payload:
  "list_all isdigit p \<Longrightarrow> atol (CHR ''-'' # p) = - atol_digits 0 p"
  by (simp add: atol_def isspace_def)

lemma readStringUntil_minus_payload:
  "CHR ''x'' \<notin> set p \<Longrightarrow>
   readStringUntil CHR ''x'' (CHR ''-'' # p @ CHR ''x'' # rest) = (CHR ''-'' # p, rest)"
  using readStringUntil_payload [of "CHR ''-'' # p" rest] by simp

text \<open>
  Beyond 16 bits the stored value wraps around: the digits \<open>40000\<close> store a negative value
  and the same digits after a minus sign store a positive one.
\<close>

lemma daqDelay_wraps:
  "daqDelay (handle_command READ_DAQ_DELAY 0 0 True (startup\<lparr>serial_in := ''40000x''\<rparr>))
     = - 25536
   \<and> daqDelay (handle_command READ_DAQ_DELAY 0 0 True (startup\<lparr>serial_in := ''-40000x''\<rparr>))
     = 25536"
  by (simp add: daqDelay_command readStringUntil_def toInt_def atol_def isspace_def isdigit_def
      to_long_def to_int_def)

text \<open>
  C9, as stated, fails: the payload \<open>-5\<close> followed by the sentinel stores \<open>-5\<close> as
  \<open>daqDelay\<close>, and the all-digit payload \<open>40000\<close> stores \<open>-25536\<close>.
\<close>

theorem negative_daqDelay_counterexample:
  "daqDelay (handle_command READ_DAQ_DELAY 0 0 True (startup\<lparr>serial_in := ''-5x''\<rparr>)) = - 5
   \<and> daqDelay (handle_command READ_DAQ_DELAY 0 0 True (startup\<lparr>serial_in := ''-5x''\<rparr>)) < 0
   \<and> list_all isdigit ''40000''
   \<and> daqDelay (handle_command READ_DAQ_DELAY 0 0 True (startup\<lparr>serial_in := ''40000x''\<rparr>))
        = - 25536"
  by (simp add: daqDelay_command readStringUntil_def toInt_def atol_def isspace_def isdigit_def
      to_long_def to_int_def)

text \<open>
  C9, amended. \<open>daqDelay\<close> is a signed 16-bit integer. For every payload of ASCII decimal
  digits only, with decimal value \<open>v\<close>: if \<open>v \<le> 32767\<close>, the value stored as \<open>daqDelay\<close> by
  the set-delay command is \<open>v\<close>, which is not negative; and if \<open>1 \<le> v \<le> 32768\<close>, the same
  digits preceded by a minus sign store \<open>-v\<close>, which is negative.
\<close>

theorem daqDelay_of_payload:
  assumes "list_all isdigit payload"
  shows "(atol_digits 0 payload \<le> 32767 \<longrightarrow>
            daqDelay (handle_command READ_DAQ_DELAY raw now w
                       (st\<lparr>serial_in := payload @ CHR ''x'' # rest\<rparr>)) = atol_digits 0 payload
            \<and> 0 \<le> daqDelay (handle_command READ_DAQ_DELAY raw now w
                       (st\<lparr>serial_in := payload @ CHR ''x'' # rest\<rparr>)))
     \<and> (1 \<le> atol_digits 0 payload \<and> atol_digits 0 payload \<le> 32768 \<longrightarrow>
            daqDelay (handle_command READ_DAQ_DELAY raw now w
                       (st\<lparr>serial_in := CHR ''-'' # payload @ CHR ''x'' # rest\<rparr>))
              = - atol_digits 0 payload
            \<and> daqDelay (handle_command READ_DAQ_DELAY raw now w
                       (st\<lparr>serial_in := CHR ''-'' # payload @ CHR ''x'' # rest\<rparr>)) < 0)"
proof -
  have x: "CHR ''x'' \<notin> set payload"
    using assms digit_not_sign by (auto simp: list_all_iff)
  have n: "0 \<le> atol_digits 0 payload" by (simp add: atol_digits_nonneg)
  have pos: "atol_digits 0 payload \<le> 32767 \<Longrightarrow> to_int (toInt payload) = atol_digits 0 payload"
    using assms n by (simp add: toInt_def atol_digits_only to_long_id to_int_id)
  have neg: "atol_digits 0 payload \<le> 32768 \<Longrightarrow>
      to_int (toInt (CHR ''-'' # payload)) = - atol_digits 0 payload"
    using assms n by (simp add: toInt_def minus_payload to_long_id to_int_id)
  show ?thesis
    using n pos neg
    by (simp add: daqDelay_command readStringUntil_payload [OF x]
        readStringUntil_minus_payload [OF x])
qed

theorem daqDelay_of_payload_witness:
  "list_all isdigit ''250'' \<and> atol_digits 0 ''250'' = 250
   \<and> daqDelay (handle_command READ_DAQ_DELAY 0 0 True (startup\<lparr>serial_in := ''250x''\<rparr>)) = 250
   \<and> daqDelay (handle_command READ_DAQ_DELAY 0 0 True (startup\<lparr>serial_in := ''-250x''\<rparr>)) = - 250"
  using daqDelay_of_payload [where payload = "''250''" and raw = 0 and now = 0 and w = True
      and st = startup and rest = "[]"]
  by (simp add: isdigit_def)

section \<open>Properties of the button handlers\<close>

lemma cbEject_rejected:
  "t - cbEject_lastInterruptTime st \<le> 200 \<Longrightarrow>
   cbEject t st = st\<lparr>cbEject_lastInterruptTime := t\<rparr>"
  by (simp add: cbEject_def Let_def not_less [symmetric])

lemma cbEject_accepted:
  "200 < t - cbEject_lastInterruptTime st \<Longrightarrow>
   cbEject t st = st\<lparr>ejectRequested := True, cbEject_lastInterruptTime := t\<rparr>"
  by (simp add: cbEject_def Let_def)

lemma cbRecord_rejected:
  "t - cbRecord_lastInterruptTime st \<le> 200 \<Longrightarrow>
   cbRecord t st = st\<lparr>cbRecord_lastInterruptTime := t\<rparr>"
  by (simp add: cbRecord_def Let_def not_less [symmetric])

lemma cbRecord_accepted:
  "200 < t - cbRecord_lastInterruptTime st \<Longrightarrow>
   cbRecord t st = st\<lparr>recordAttached := False, pressStartTime := t, waitingForRelease := True,
                      cbRecord_lastInterruptTime := t\<rparr>"
  by (simp add: cbRecord_def Let_def)

lemma handlers_stamp:
  "cbEject_lastInterruptTime (cbEject t st) = t"
  "cbRecord_lastInterruptTime (cbRecord t st) = t"
  by (simp_all add: cbEject_def cbRecord_def Let_def)

text \<open>
  C4, as stated, fails: an eject edge at 1000 ms is accepted and its request is served by
  the loop; a second edge at 1200 ms, 200 ms after the first, is not registered.
\<close>

theorem debounce_at_200_counterexample:
  "ejectRequested (cbEject 1000 startup)
   \<and> \<not> ejectRequested (loop_eject [] [] (cbEject 1000 startup))
   \<and> (200 :: ulong) \<le> 1200 - 1000
   \<and> \<not> ejectRequested (cbEject 1200 (loop_eject [] [] (cbEject 1000 startup)))"
  by (simp add: cbEject_def startup_def loop_eject_def interrupts_def stepMotor_def
      lcd_message_def Let_def)

text \<open>
  C4, amended. Each handler stamps the time of its invocation. When a handler runs at time
  \<open>t2\<close> and its previous invocation was at the stamped time \<open>t1\<close> (differences of 32-bit
  unsigned times): if \<open>t2 - t1 \<le> 200\<close> the invocation registers nothing, only the stamp
  changes; if \<open>t2 - t1 > 200\<close> it registers a logical event: \<open>cbEject\<close> sets
  \<open>ejectRequested\<close>, \<open>cbRecord\<close> detaches its interrupt, records the press start time and
  sets \<open>waitingForRelease\<close>.
\<close>

theorem debounce_window:
  "cbEject_lastInterruptTime (cbEject t1 st0) = t1
   \<and> cbRecord_lastInterruptTime (cbRecord t1 st0) = t1
   \<and> (t2 - cbEject_lastInterruptTime st \<le> 200 \<longrightarrow>
        cbEject t2 st = st\<lparr>cbEject_lastInterruptTime := t2\<rparr>)
   \<and> (200 < t2 - cbEject_lastInterruptTime st \<longrightarrow>
        cbEject t2 st = st\<lparr>ejectRequested := True, cbEject_lastInterruptTime := t2\<rparr>)
   \<and> (t2 - cbRecord_lastInterruptTime st \<le> 200 \<longrightarrow>
        cbRecord t2 st = st\<lparr>cbRecord_lastInterruptTime := t2\<rparr>)
   \<and> (200 < t2 - cbRecord_lastInterruptTime st \<longrightarrow>
        cbRecord t2 st = st\<lparr>recordAttached := False, pressStartTime := t2,
                            waitingForRelease := True, cbRecord_lastInterruptTime := t2\<rparr>)"
  by (simp add: cbEject_rejected cbEject_accepted cbRecord_rejected cbRecord_accepted
      handlers_stamp)

theorem debounce_window_witness:
  "(1200 :: ulong) - cbEject_lastInterruptTime (startup\<lparr>cbEject_lastInterruptTime := 1000\<rparr>) \<le> 200
   \<and> \<not> ejectRequested (cbEject 1200 (startup\<lparr>cbEject_lastInterruptTime := 1000\<rparr>))
   \<and> (200 :: ulong) < 1201 - cbEject_lastInterruptTime (startup\<lparr>cbEject_lastInterruptTime := 1000\<rparr>)
   \<and> ejectRequested (cbEject 1201 (startup\<lparr>cbEject_lastInterruptTime := 1000\<rparr>))
   \<and> (1200 :: ulong) - cbRecord_lastInterruptTime (startup\<lparr>cbRecord_lastInterruptTime := 1000\<rparr>) \<le> 200
   \<and> \<not> waitingForRelease (cbRecord 1200 (startup\<lparr>cbRecord_lastInterruptTime := 1000\<rparr>))
   \<and> (200 :: ulong) < 1201 - cbRecord_lastInterruptTime (startup\<lparr>cbRecord_lastInterruptTime := 1000\<rparr>)
   \<and> waitingForRelease (cbRecord 1201 (startup\<lparr>cbRecord_lastInterruptTime := 1000\<rparr>))"
  using debounce_window [of 0 startup 1200 "startup\<lparr>cbEject_lastInterruptTime := 1000\<rparr>"]
    debounce_window [of 0 startup 1201 "startup\<lparr>cbEject_lastInterruptTime := 1000\<rparr>"]
    debounce_window [of 0 startup 1200 "startup\<lparr>cbRecord_lastInterruptTime := 1000\<rparr>"]
    debounce_window [of 0 startup 1201 "startup\<lparr>cbRecord_lastInterruptTime := 1000\<rparr>"]
  by (simp add: startup_def)

lemma fold_cbEject_window:
  "within_window (cbEject_lastInterruptTime st) ts \<Longrightarrow>
   fold cbEject ts st
     = st\<lparr>cbEject_lastInterruptTime := last (cbEject_lastInterruptTime st # ts)\<rparr>"
proof (induction ts arbitrary: st)
  case Nil
  show ?case by simp
next
  case (Cons t ts)
  then have r: "cbEject t st = st\<lparr>cbEject_lastInterruptTime := t\<rparr>"
    by (simp add: cbEject_rejected)
  from Cons.prems
  have "within_window (cbEject_lastInterruptTime (st\<lparr>cbEject_lastInterruptTime := t\<rparr>)) ts"
    by simp
  from Cons.IH [OF this] show ?case by (simp add: r)
qed

lemma fold_cbRecord_window:
  "within_window (cbRecord_lastInterruptTime st) ts \<Longrightarrow>
   fold cbRecord ts st
     = st\<lparr>cbRecord_lastInterruptTime := last (cbRecord_lastInterruptTime st # ts)\<rparr>"
proof (induction ts arbitrary: st)
  case Nil
  show ?case by simp
next
  case (Cons t ts)
  then have r: "cbRecord t st = st\<lparr>cbRecord_lastInterruptTime := t\<rparr>"
    by (simp add: cbRecord_rejected)
  from Cons.prems
  have "within_window (cbRecord_lastInterruptTime (st\<lparr>cbRecord_lastInterruptTime := t\<rparr>)) ts"
    by simp
  from Cons.IH [OF this] show ?case by (simp add: r)
qed

lemma eject_edges_fold: "interrupts (map EjectEdge ts) st = fold cbEject ts st"
  unfolding interrupts_def by (induction ts arbitrary: st) simp_all

lemma record_edges_detached:
  "\<not> recordAttached st \<Longrightarrow> interrupts (map RecordEdge ts) st = st"
  unfolding interrupts_def by (induction ts) simp_all

lemma record_edges_attached:
  "recordAttached st \<Longrightarrow> within_window (cbRecord_lastInterruptTime st) ts \<Longrightarrow>
   interrupts (map RecordEdge ts) st = fold cbRecord ts st"
  unfolding interrupts_def
proof (induction ts arbitrary: st)
  case Nil
  show ?case by simp
next
  case (Cons t ts)
  then have r: "cbRecord t st = st\<lparr>cbRecord_lastInterruptTime := t\<rparr>"
    by (simp add: cbRecord_rejected)
  have "fold fire (map RecordEdge ts) (st\<lparr>cbRecord_lastInterruptTime := t\<rparr>)
          = fold cbRecord ts (st\<lparr>cbRecord_lastInterruptTime := t\<rparr>)"
    using Cons.prems by (intro Cons.IH) simp_all
  then show ?case using Cons.prems(1) by (simp add: r)
qed

section \<open>Properties of the eject action\<close>

lemma fire_elevatorUp: "elevatorUp (fire e st) = elevatorUp st"
  by (cases e) (simp_all add: cbEject_def cbRecord_def Let_def)

lemma interrupts_elevatorUp: "elevatorUp (interrupts es st) = elevatorUp st"
  unfolding interrupts_def by (induction es arbitrary: st) (simp_all add: fire_elevatorUp)

lemma sendData_elevatorUp: "elevatorUp (snd (sendData raw now w st)) = elevatorUp st"
  by (simp add: sendData_def sample_def Let_def)

lemma loop_stream_elevatorUp: "elevatorUp (loop_stream raw now now' w st) = elevatorUp st"
  by (simp add: loop_stream_def sendData_def sample_def Let_def)

lemma handle_command_elevatorUp: "elevatorUp (handle_command b raw now w st) = elevatorUp st"
  by (simp add: handle_command_def sendData_def sample_def Let_def split: prod.splits)

lemma loop_serial_elevatorUp: "elevatorUp (loop_serial raw now w st) = elevatorUp st"
  by (simp add: loop_serial_def handle_command_elevatorUp split: list.splits)

lemma loop_button_elevatorUp: "elevatorUp (loop_button p raw now st) = elevatorUp st"
  by (simp add: loop_button_def calibration_def sample_def Let_def)

lemma before_eject_elevatorUp: "elevatorUp (before_eject env st) = elevatorUp st"
  by (simp add: before_eject_def Let_def interrupts_elevatorUp loop_stream_elevatorUp
      loop_serial_elevatorUp loop_button_elevatorUp)

lemma loop_eject_toggle:
  "ejectRequested st \<Longrightarrow> elevatorUp (loop_eject during after st) = c_not (elevatorUp st)"
  by (simp add: loop_eject_def Let_def interrupts_elevatorUp stepMotor_def lcd_message_def)

lemma loop_eject_clears: "\<not> ejectRequested (loop_eject during after st)"
  by (simp add: loop_eject_def Let_def)

lemma loop_eject_idle: "\<not> ejectRequested st \<Longrightarrow> loop_eject during after st = st"
  by (simp add: loop_eject_def)

lemma loops_parity:
  "(elevatorUp (loops envs st) \<noteq> 0)
     = (if even (completed_ejects envs st) then elevatorUp st \<noteq> 0 else elevatorUp st = 0)"
proof (induction envs arbitrary: st)
  case Nil
  show ?case by simp
next
  case (Cons env envs)
  define s where "s = before_eject env st"
  have e: "elevatorUp s = elevatorUp st" by (simp add: s_def before_eject_elevatorUp)
  show ?case
  proof (cases "ejectRequested s")
    case True
    then have "elevatorUp (loop env st) = c_not (elevatorUp st)"
      by (simp add: loop_def s_def [symmetric] loop_eject_toggle e)
    then show ?thesis using True Cons.IH [of "loop env st"]
      by (simp add: s_def [symmetric] c_not_def)
  next
    case False
    then have "elevatorUp (loop env st) = elevatorUp st"
      by (simp add: loop_def s_def [symmetric] loop_eject_idle e)
    then show ?thesis using False Cons.IH [of "loop env st"]
      by (simp add: s_def [symmetric])
  qed
qed

text \<open>
  C5. An eject action toggles \<open>elevatorUp\<close> exactly once and leaves no request pending,
  whatever button edges arrive while the motor action is in progress. Over any run of loop
  iterations, \<open>elevatorUp\<close> has been toggled once for each completed eject action, so
  successive completed ejects alternate between raised and lowered.
\<close>

theorem eject_toggles_once:
  "(ejectRequested st \<longrightarrow>
      elevatorUp (loop_eject during after st) = c_not (elevatorUp st))
   \<and> \<not> ejectRequested (loop_eject during after st)
   \<and> ((elevatorUp (loops envs st) \<noteq> 0)
        = (if even (completed_ejects envs st) then elevatorUp st \<noteq> 0 else elevatorUp st = 0))"
  by (simp add: loop_eject_toggle loop_eject_clears loops_parity)

theorem eject_toggles_once_witness:
  "ejectRequested (cbEject 1000 startup)
   \<and> elevatorUp (cbEject 1000 startup) = 1
   \<and> elevatorUp (loop_eject [EjectEdge 1300, EjectEdge 1700] [EjectEdge 2000]
        (cbEject 1000 startup)) = 0
   \<and> \<not> ejectRequested (loop_eject [EjectEdge 1300, EjectEdge 1700] [EjectEdge 2000]
        (cbEject 1000 startup))"
  using eject_toggles_once [of "cbEject 1000 startup" "[EjectEdge 1300, EjectEdge 1700]"
      "[EjectEdge 2000]" "[]"]
  by (simp add: cbEject_def startup_def c_not_def)

section \<open>Debounce over a run of edges\<close>

lemma within_window_append:
  "within_window t (xs @ ys) = (within_window t xs \<and> within_window (last (t # xs)) ys)"
  by (induction xs arbitrary: t) simp_all

lemma eject_times_append: "eject_times (xs @ ys) = eject_times xs @ eject_times ys"
  by (induction xs rule: eject_times.induct) simp_all

lemma last_cons_append: "last (t # xs @ ys) = last (last (t # xs) # ys)"
  by (simp add: last_append)

lemma interrupts_window:
  "within_window (cbEject_lastInterruptTime st) (eject_times es) \<Longrightarrow>
   ejectRequested (interrupts es st) = ejectRequested st
   \<and> cbEject_lastInterruptTime (interrupts es st)
       = last (cbEject_lastInterruptTime st # eject_times es)"
  unfolding interrupts_def
proof (induction es arbitrary: st)
  case Nil
  show ?case by simp
next
  case (Cons e es)
  show ?case
  proof (cases e)
    case (EjectEdge t)
    with Cons.prems have r: "cbEject t st = st\<lparr>cbEject_lastInterruptTime := t\<rparr>"
      by (simp add: cbEject_rejected)
    from Cons.prems EjectEdge
    have "within_window (cbEject_lastInterruptTime (st\<lparr>cbEject_lastInterruptTime := t\<rparr>))
            (eject_times es)"
      by simp
    from Cons.IH [OF this] show ?thesis by (simp add: EjectEdge r)
  next
    case (RecordEdge t)
    have f: "ejectRequested (fire (RecordEdge t) st) = ejectRequested st"
      "cbEject_lastInterruptTime (fire (RecordEdge t) st) = cbEject_lastInterruptTime st"
      by (simp_all add: cbRecord_def Let_def)
    from Cons.prems RecordEdge
    have "within_window (cbEject_lastInterruptTime (fire (RecordEdge t) st)) (eject_times es)"
      by (simp only: f eject_times.simps)
    from Cons.IH [OF this] show ?thesis by (simp only: RecordEdge f fold_simps eject_times.simps comp_def)
  qed
qed

lemma loop_stream_eject_fields:
  "ejectRequested (loop_stream raw now now' w st) = ejectRequested st"
  "cbEject_lastInterruptTime (loop_stream raw now now' w st) = cbEject_lastInterruptTime st"
  "cbRecord_lastInterruptTime (loop_stream raw now now' w st) = cbRecord_lastInterruptTime st"
  by (simp_all add: loop_stream_def sendData_def sample_def Let_def)

lemma handle_command_eject_fields:
  "ejectRequested (handle_command b raw now w st) = ejectRequested st"
  "cbEject_lastInterruptTime (handle_command b raw now w st) = cbEject_lastInterruptTime st"
  "cbRecord_lastInterruptTime (handle_command b raw now w st) = cbRecord_lastInterruptTime st"
  by (simp_all add: handle_command_def sendData_def sample_def Let_def split: prod.splits)

lemma loop_serial_eject_fields:
  "ejectRequested (loop_serial raw now w st) = ejectRequested st"
  "cbEject_lastInterruptTime (loop_serial raw now w st) = cbEject_lastInterruptTime st"
  "cbRecord_lastInterruptTime (loop_serial raw now w st) = cbRecord_lastInterruptTime st"
  by (simp_all add: loop_serial_def handle_command_eject_fields split: list.splits)

lemma loop_button_eject_fields:
  "ejectRequested (loop_button p raw now st) = ejectRequested st"
  "cbEject_lastInterruptTime (loop_button p raw now st) = cbEject_lastInterruptTime st"
  "cbRecord_lastInterruptTime (loop_button p raw now st) = cbRecord_lastInterruptTime st"
  by (simp_all add: loop_button_def calibration_def sample_def Let_def)

lemma loop_eject_stamps:
  "cbEject_lastInterruptTime (loop_eject [] [] st) = cbEject_lastInterruptTime st"
  "cbRecord_lastInterruptTime (loop_eject [] [] st) = cbRecord_lastInterruptTime st"
  by (simp_all add: loop_eject_def interrupts_def stepMotor_def lcd_message_def Let_def)

lemma before_eject_window:
  assumes "within_window (cbEject_lastInterruptTime st)
     (eject_times (edges_stream env @ edges_serial env @ edges_button env @ edges_eject env))"
  shows "ejectRequested (before_eject env st) = ejectRequested st
   \<and> cbEject_lastInterruptTime (before_eject env st)
       = last (cbEject_lastInterruptTime st
           # eject_times (edges_stream env @ edges_serial env @ edges_button env @ edges_eject env))"
proof -
  define s0 where "s0 = interrupts (edges_stream env) st"
  define s1 where "s1 = loop_stream (adc env) (now_stream env) (now_sent env) (writable env) s0"
  define s1' where "s1' = interrupts (edges_serial env) s1"
  define s2 where "s2 = loop_serial (adc env) (now_serial env) (writable env) s1'"
  define s2' where "s2' = interrupts (edges_button env) s2"
  define s3 where "s3 = loop_button (pin_high env) (adc env) (now_button env) s2'"
  define s4 where "s4 = interrupts (edges_eject env) s3"
  have b: "before_eject env st = s4"
    by (simp add: before_eject_def Let_def s0_def s1_def s1'_def s2_def s2'_def s3_def s4_def)
  from assms have w:
    "within_window (cbEject_lastInterruptTime st) (eject_times (edges_stream env))"
    "within_window (last (cbEject_lastInterruptTime st # eject_times (edges_stream env)))
       (eject_times (edges_serial env))"
    "within_window (last (last (cbEject_lastInterruptTime st # eject_times (edges_stream env))
         # eject_times (edges_serial env))) (eject_times (edges_button env))"
    "within_window (last (last (last (cbEject_lastInterruptTime st # eject_times (edges_stream env))
         # eject_times (edges_serial env)) # eject_times (edges_button env)))
       (eject_times (edges_eject env))"
    by (simp_all add: eject_times_append within_window_append last_append)
  have i0: "ejectRequested s0 = ejectRequested st"
    "cbEject_lastInterruptTime s0 = last (cbEject_lastInterruptTime st # eject_times (edges_stream env))"
    using interrupts_window [OF w(1)] by (simp_all add: s0_def)
  have i1: "ejectRequested s1 = ejectRequested st"
    "cbEject_lastInterruptTime s1 = cbEject_lastInterruptTime s0"
    by (simp_all add: s1_def loop_stream_eject_fields i0)
  have "within_window (cbEject_lastInterruptTime s1) (eject_times (edges_serial env))"
    using w(2) by (simp only: i1 i0)
  from interrupts_window [OF this]
  have i1': "ejectRequested s1' = ejectRequested st"
    "cbEject_lastInterruptTime s1' = last (cbEject_lastInterruptTime s1 # eject_times (edges_serial env))"
    by (simp_all add: s1'_def [symmetric] i1)
  have i2: "ejectRequested s2 = ejectRequested st"
    "cbEject_lastInterruptTime s2 = cbEject_lastInterruptTime s1'"
    by (simp_all add: s2_def loop_serial_eject_fields i1')
  have "within_window (cbEject_lastInterruptTime s2) (eject_times (edges_button env))"
    using w(3) by (simp only: i2 i1' i1 i0)
  from interrupts_window [OF this]
  have i2': "ejectRequested s2' = ejectRequested st"
    "cbEject_lastInterruptTime s2' = last (cbEject_lastInterruptTime s2 # eject_times (edges_button env))"
    by (simp_all add: s2'_def [symmetric] i2)
  have i3: "ejectRequested s3 = ejectRequested st"
    "cbEject_lastInterruptTime s3 = cbEject_lastInterruptTime s2'"
    by (simp_all add: s3_def loop_button_eject_fields i2')
  have "within_window (cbEject_lastInterruptTime s3) (eject_times (edges_eject env))"
    using w(4) by (simp only: i3 i2' i2 i1' i1 i0)
  from interrupts_window [OF this]
  have i4: "ejectRequested s4 = ejectRequested st"
    "cbEject_lastInterruptTime s4 = last (cbEject_lastInterruptTime s3 # eject_times (edges_eject env))"
    by (simp_all add: s4_def [symmetric] i3)
  show ?thesis
    unfolding b using i4 by (simp add: i3 i2' i2 i1' i1 i0 eject_times_append last_append)
qed

lemma loop_eject_window:
  assumes "ejectRequested s"
    and "within_window (cbEject_lastInterruptTime s) (eject_times (during @ after))"
  shows "cbEject_lastInterruptTime (loop_eject during after s)
       = last (cbEject_lastInterruptTime s # eject_times (during @ after))"
proof -
  define s1 where "s1 = (if elevatorUp s \<noteq> 0
                    then lcd_message ''Ejecting...'' (stepMotor elevatorRiseTicks s)
                    else lcd_message ''Sample inserted.'' (stepMotor (- elevatorRiseTicks) s))"
  define s2 where "s2 = interrupts during s1"
  define s3 where "s3 = s2\<lparr>elevatorUp := c_not (elevatorUp s2)\<rparr>"
  define s4 where "s4 = interrupts after s3"
  have e: "loop_eject during after s = s4\<lparr>ejectRequested := False\<rparr>"
    using assms(1) by (simp add: loop_eject_def Let_def s1_def s2_def s3_def s4_def)
  have t1: "cbEject_lastInterruptTime s1 = cbEject_lastInterruptTime s"
    by (simp add: s1_def lcd_message_def stepMotor_def Let_def)
  from assms(2) have w:
    "within_window (cbEject_lastInterruptTime s1) (eject_times during)"
    "within_window (last (cbEject_lastInterruptTime s1 # eject_times during)) (eject_times after)"
    by (simp_all add: eject_times_append within_window_append t1)
  have t2: "cbEject_lastInterruptTime s2 = last (cbEject_lastInterruptTime s1 # eject_times during)"
    using interrupts_window [OF w(1)] by (simp add: s2_def)
  have t3: "cbEject_lastInterruptTime s3 = cbEject_lastInterruptTime s2"
    by (simp add: s3_def)
  have "within_window (cbEject_lastInterruptTime s3) (eject_times after)"
    using w(2) by (simp only: t3 t2)
  from interrupts_window [OF this]
  have t4: "cbEject_lastInterruptTime s4 = last (cbEject_lastInterruptTime s3 # eject_times after)"
    by (simp add: s4_def)
  show ?thesis
    unfolding e by (simp add: t4 t3 t2 t1 eject_times_append last_append)
qed

lemma loops_window:
  "within_window (cbEject_lastInterruptTime st) (eject_edge_times envs st) \<Longrightarrow>
   completed_ejects envs st \<le> (if ejectRequested st then 1 else 0)
   \<and> (\<not> ejectRequested st \<longrightarrow> \<not> ejectRequested (loops envs st))
   \<and> cbEject_lastInterruptTime (loops envs st)
       = last (cbEject_lastInterruptTime st # eject_edge_times envs st)"
proof (induction envs arbitrary: st)
  case Nil
  show ?case by simp
next
  case (Cons env envs)
  define A where "A = eject_times (edges_stream env @ edges_serial env @ edges_button env
                        @ edges_eject env)"
  define s where "s = before_eject env st"
  define X where "X = (if ejectRequested s
                        then eject_times (edges_during env @ edges_after env) else [])"
  define s' where "s' = loop env st"
  have times: "eject_edge_times (env # envs) st = A @ X @ eject_edge_times envs s'"
    by (simp add: A_def X_def s_def s'_def)
  from Cons.prems have w:
    "within_window (cbEject_lastInterruptTime st) A"
    "within_window (last (cbEject_lastInterruptTime st # A)) X"
    "within_window (last (last (cbEject_lastInterruptTime st # A) # X)) (eject_edge_times envs s')"
    unfolding times by (simp_all add: within_window_append last_append)
  have b: "ejectRequested s = ejectRequested st"
    "cbEject_lastInterruptTime s = last (cbEject_lastInterruptTime st # A)"
    using before_eject_window [of st env] w(1) by (simp_all add: A_def s_def)
  have l: "s' = loop_eject (edges_during env) (edges_after env) s"
    by (simp add: s'_def loop_def s_def)
  have s'_facts: "\<not> ejectRequested s'"
    "cbEject_lastInterruptTime s' = last (cbEject_lastInterruptTime s # X)"
  proof -
    show "\<not> ejectRequested s'" by (simp add: l loop_eject_clears)
    show "cbEject_lastInterruptTime s' = last (cbEject_lastInterruptTime s # X)"
    proof (cases "ejectRequested s")
      case True
      then have "within_window (cbEject_lastInterruptTime s)
                   (eject_times (edges_during env @ edges_after env))"
        using w(2) by (simp add: X_def b)
      from loop_eject_window [OF True this] show ?thesis using True by (simp add: l X_def)
    next
      case False
      then show ?thesis by (simp add: l loop_eject_idle X_def)
    qed
  qed
  have "within_window (cbEject_lastInterruptTime s') (eject_edge_times envs s')"
    using w(3) by (simp only: s'_facts b)
  from Cons.IH [OF this] s'_facts(1)
  have ih: "completed_ejects envs s' = 0"
    "\<not> ejectRequested (loops envs s')"
    "cbEject_lastInterruptTime (loops envs s')
       = last (cbEject_lastInterruptTime s' # eject_edge_times envs s')"
    by simp_all
  have c: "completed_ejects (env # envs) st = (if ejectRequested st then 1 else 0)"
    using ih(1) by (simp add: s_def [symmetric] s'_def [symmetric] b)
  have r: "loops (env # envs) st = loops envs s'" by (simp add: s'_def)
  show ?case
    unfolding r times using c ih(2) ih(3)
    by (simp add: s'_facts b last_append)
qed


text \<open>
  C10, as stated, fails for the record source. Record edges at 1000, 1150, 1300 and 1400 ms
  each come at most 200 ms after the one before. The edge at 1000 is accepted and detaches
  the interrupt; the edges at 1150 and 1300 arrive while it is detached and are not
  stamped; the loop handles the release at 1310 and attaches the interrupt again; the edge
  at 1400 is then measured from the stamp 1000 and registers a second press.
\<close>

theorem record_reattach_counterexample:
  "within_window 1000 [1150, 1300, 1400]
   \<and> waitingForRelease (fire (RecordEdge 1000) startup)
   \<and> \<not> waitingForRelease (loop_button True 0 1310
         (interrupts [RecordEdge 1150, RecordEdge 1300] (fire (RecordEdge 1000) startup)))
   \<and> waitingForRelease (fire (RecordEdge 1400) (loop_button True 0 1310
         (interrupts [RecordEdge 1150, RecordEdge 1300] (fire (RecordEdge 1000) startup))))
   \<and> pressStartTime (fire (RecordEdge 1400) (loop_button True 0 1310
         (interrupts [RecordEdge 1150, RecordEdge 1300] (fire (RecordEdge 1000) startup)))) = 1400"
  by (simp add: cbRecord_def startup_def loop_button_def interrupts_def sample_def
      buttonHoldMillis_def Let_def)


text \<open>
  C10, amended. Both handlers stamp the time of every invocation, accepted or rejected, and
  no block of the loop writes either stamp. So a run of invocations of one handler in
  which each comes at most 200 ms after the previous one (the first after the stamped
  time) changes nothing but the stamp. Every eject edge invokes \<open>cbEject\<close>; so over any
  run of loop iterations in which each eject edge comes at most 200 ms after the previous
  one, no eject edge raises a request: at most the one request already pending is served,
  and a cleared request stays cleared. A record edge invokes \<open>cbRecord\<close> only while the
  record interrupt is attached: a run of record edges within the window registers nothing
  while it stays attached, and edges that arrive while it is detached change nothing, not
  even the stamp.
\<close>

theorem window_run_by_source:
  "cbEject_lastInterruptTime (cbEject t st) = t
   \<and> cbRecord_lastInterruptTime (cbRecord t st) = t
   \<and> cbEject_lastInterruptTime (loop_stream raw now now' w st) = cbEject_lastInterruptTime st
   \<and> cbRecord_lastInterruptTime (loop_stream raw now now' w st) = cbRecord_lastInterruptTime st
   \<and> cbEject_lastInterruptTime (loop_serial raw now w st) = cbEject_lastInterruptTime st
   \<and> cbRecord_lastInterruptTime (loop_serial raw now w st) = cbRecord_lastInterruptTime st
   \<and> cbEject_lastInterruptTime (loop_button p raw now st) = cbEject_lastInterruptTime st
   \<and> cbRecord_lastInterruptTime (loop_button p raw now st) = cbRecord_lastInterruptTime st
   \<and> cbEject_lastInterruptTime (loop_eject [] [] st) = cbEject_lastInterruptTime st
   \<and> cbRecord_lastInterruptTime (loop_eject [] [] st) = cbRecord_lastInterruptTime st
   \<and> (within_window (cbEject_lastInterruptTime st) ts \<longrightarrow>
        fold cbEject ts st
          = st\<lparr>cbEject_lastInterruptTime := last (cbEject_lastInterruptTime st # ts)\<rparr>)
   \<and> (within_window (cbRecord_lastInterruptTime st) ts \<longrightarrow>
        fold cbRecord ts st
          = st\<lparr>cbRecord_lastInterruptTime := last (cbRecord_lastInterruptTime st # ts)\<rparr>)
   \<and> interrupts (map EjectEdge ts) st = fold cbEject ts st
   \<and> (within_window (cbEject_lastInterruptTime st) (eject_edge_times envs st) \<longrightarrow>
        completed_ejects envs st \<le> (if ejectRequested st then 1 else 0)
        \<and> (\<not> ejectRequested st \<longrightarrow> \<not> ejectRequested (loops envs st))
        \<and> cbEject_lastInterruptTime (loops envs st)
            = last (cbEject_lastInterruptTime st # eject_edge_times envs st))
   \<and> (recordAttached st \<and> within_window (cbRecord_lastInterruptTime st) ts \<longrightarrow>
        interrupts (map RecordEdge ts) st = fold cbRecord ts st)
   \<and> (\<not> recordAttached st \<longrightarrow> interrupts (map RecordEdge ts) st = st)"
  using loops_window [of st envs]
  by (simp add: fold_cbEject_window fold_cbRecord_window handlers_stamp eject_edges_fold
      record_edges_detached record_edges_attached loop_stream_eject_fields
      loop_serial_eject_fields loop_button_eject_fields loop_eject_stamps)

theorem window_run_by_source_witness:
  "ejectRequested (cbEject 1000 startup)
   \<and> eject_edge_times
        [edges_only [EjectEdge 1200] [EjectEdge 1400, RecordEdge 1500, EjectEdge 1600],
         edges_only [EjectEdge 1800] []] (cbEject 1000 startup) = [1200, 1400, 1600, 1800]
   \<and> within_window (cbEject_lastInterruptTime (cbEject 1000 startup)) [1200, 1400, 1600, 1800]
   \<and> completed_ejects
        [edges_only [EjectEdge 1200] [EjectEdge 1400, RecordEdge 1500, EjectEdge 1600],
         edges_only [EjectEdge 1800] []] (cbEject 1000 startup) \<le> 1
   \<and> \<not> ejectRequested (loop_eject [] [] (cbEject 1000 startup))
   \<and> eject_edge_times [edges_only [EjectEdge 1200] [], edges_only [EjectEdge 1400] []]
        (loop_eject [] [] (cbEject 1000 startup)) = [1200, 1400]
   \<and> \<not> ejectRequested (loops [edges_only [EjectEdge 1200] [], edges_only [EjectEdge 1400] []]
        (loop_eject [] [] (cbEject 1000 startup)))
   \<and> \<not> ejectRequested (fold cbEject [1200, 1400]
         (loop_eject [] [] (cbEject 1000 startup)))
   \<and> recordAttached (loop_button True 0 1100 (cbRecord 1000 startup))
   \<and> within_window (cbRecord_lastInterruptTime (loop_button True 0 1100 (cbRecord 1000 startup)))
         [1200, 1400]
   \<and> \<not> waitingForRelease (interrupts (map RecordEdge [1200, 1400])
         (loop_button True 0 1100 (cbRecord 1000 startup)))
   \<and> \<not> recordAttached (cbRecord 1000 startup)
   \<and> interrupts (map RecordEdge [1200, 1400]) (cbRecord 1000 startup) = cbRecord 1000 startup"
  using
    window_run_by_source [where st = "cbEject 1000 startup" and t = 0 and ts = "[]"
      and envs = "[edges_only [EjectEdge 1200] [EjectEdge 1400, RecordEdge 1500, EjectEdge 1600],
                   edges_only [EjectEdge 1800] []]"]
    window_run_by_source [where st = "loop_eject [] [] (cbEject 1000 startup)" and t = 0
      and ts = "[1200, 1400]"
      and envs = "[edges_only [EjectEdge 1200] [], edges_only [EjectEdge 1400] []]"]
    window_run_by_source [where st = "loop_button True 0 1100 (cbRecord 1000 startup)" and t = 0
      and ts = "[1200, 1400]" and envs = "[]"]
    window_run_by_source [where st = "cbRecord 1000 startup" and t = 0
      and ts = "[1200, 1400]" and envs = "[]"]
  by (simp add: cbEject_def cbRecord_def startup_def loop_eject_def loop_button_def
      loop_stream_def loop_serial_def before_eject_def loop_def edges_only_def
      interrupts_def stepMotor_def lcd_message_def sample_def buttonHoldMillis_def
      ON_REQUEST_def STREAM_def c_not_def Let_def)


end
